theory Spec2Isabelle
  imports Complex_Main
begin

section \<open>Text helpers: the Python string operations the quiz uses\<close>

text \<open>
  Python strings are modelled as \<open>string\<close> (a list of characters). The model covers
  ASCII text: \<open>str.lower\<close>, \<open>str.strip\<close>, \<open>str.split\<close> and \<open>int\<close> are written out
  for ASCII letters, ASCII white space and ASCII digits.
\<close>

definition lower_char :: "char \<Rightarrow> char" where
  "lower_char c =
     (case map_of (zip ''ABCDEFGHIJKLMNOPQRSTUVWXYZ'' ''abcdefghijklmnopqrstuvwxyz'') c of
        Some d \<Rightarrow> d
      | None \<Rightarrow> c)"

definition lower :: "string \<Rightarrow> string" where
  "lower s = map lower_char s"

definition upper_char :: "char \<Rightarrow> char" where
  "upper_char c =
     (case map_of (zip ''abcdefghijklmnopqrstuvwxyz'' ''ABCDEFGHIJKLMNOPQRSTUVWXYZ'') c of
        Some d \<Rightarrow> d
      | None \<Rightarrow> c)"

definition upper :: "string \<Rightarrow> string" where
  "upper s = map upper_char s"

definition is_space :: "char \<Rightarrow> bool" where
  "is_space c =
     (c \<in> set [CHR 0x09, CHR 0x0A, CHR 0x0B, CHR 0x0C, CHR 0x0D,
                CHR 0x1C, CHR 0x1D, CHR 0x1E, CHR 0x1F, CHR 0x20])"

definition strip :: "string \<Rightarrow> string" where
  "strip s = rev (dropWhile is_space (rev (dropWhile is_space s)))"

text \<open>\<open>s.split(c)\<close>: cut at every occurrence of \<open>c\<close>; the empty string gives one empty part.\<close>

fun split_on :: "char \<Rightarrow> string \<Rightarrow> string list" where
  "split_on c [] = [[]]"
| "split_on c (x # xs) =
     (if x = c then [] # split_on c xs
      else (case split_on c xs of
              [] \<Rightarrow> [[x]]
            | p # ps \<Rightarrow> (x # p) # ps))"

definition is_digit :: "char \<Rightarrow> bool" where
  "is_digit c = (c \<in> set ''0123456789'')"

definition digit_val :: "char \<Rightarrow> nat" where
  "digit_val c = (case map_of (zip ''0123456789'' [0, 1, 2, 3, 4, 5, 6, 7, 8, 9]) c of
                    Some d \<Rightarrow> d
                  | None \<Rightarrow> 0)"

text \<open>
  The digits of an \<open>int\<close> literal: at least one digit, single underscores allowed between
  digits only. The flag says that the previous character was a digit.
\<close>

fun py_digits :: "bool \<Rightarrow> nat \<Rightarrow> string \<Rightarrow> nat option" where
  "py_digits prev acc [] = (if prev then Some acc else None)"
| "py_digits prev acc (c # cs) =
     (if is_digit c then py_digits True (acc * 10 + digit_val c) cs
      else if c = CHR ''_'' \<and> prev then py_digits False acc cs
      else None)"

text \<open>\<open>int(s)\<close> on a string: \<open>None\<close> stands for \<open>ValueError\<close>.\<close>

definition py_int :: "string \<Rightarrow> int option" where
  "py_int s =
     (case strip s of
        [] \<Rightarrow> None
      | c # cs \<Rightarrow>
          if c = CHR ''-'' then map_option (\<lambda>n. - int n) (py_digits False 0 cs)
          else if c = CHR ''+'' then map_option int (py_digits False 0 cs)
          else map_option int (py_digits False 0 (c # cs)))"

section \<open>The question table\<close>

text \<open>
  A row of the loaded table. A data frame is a list of rows, each with its index label:
  the row position in the source table, which filtering and sampling keep.
\<close>

record question =
  q_chapter :: int
  q_question_no :: int
  q_question :: string
  q_option_a :: string
  q_option_b :: string
  q_option_c :: string
  q_option_d :: string
  q_correct_answer :: string
  q_reason :: string
  q_attempted :: int
  q_incorrect_attempt :: int

type_synonym dataframe = "(nat \<times> question) list"

text \<open>The messages the application shows, one constructor for each call site.\<close>

datatype message =
    Error_load_failed
  | Warning_question_no_missing
  | Error_authentication
  | Error_column_not_found string
  | Error_update_failed nat nat
  | Error_invalid_range
  | Error_chapters_missing
  | Error_invalid_format
  | Warning_no_mode_available
  | Warning_no_questions_for_mode
  | Error_count_out_of_bounds nat
  | Success_correct
  | Error_incorrect string
  | Warning_reason string

fun is_error :: "message \<Rightarrow> bool" where
  "is_error Error_load_failed = True"
| "is_error Error_authentication = True"
| "is_error (Error_column_not_found c) = True"
| "is_error (Error_update_failed r c) = True"
| "is_error Error_invalid_range = True"
| "is_error Error_chapters_missing = True"
| "is_error Error_invalid_format = True"
| "is_error (Error_count_out_of_bounds n) = True"
| "is_error (Error_incorrect k) = True"
| "is_error m = False"

section \<open>Chapter selection\<close>

text \<open>\<open>sorted(df['Chapter'].unique().tolist())\<close>\<close>

definition all_available_chapters :: "dataframe \<Rightarrow> int list" where
  "all_available_chapters df = sort (remdups (map (\<lambda>(i, q). q_chapter q) df))"

text \<open>
  \<open>start, end = map(int, s.split('-'))\<close>: \<open>None\<close> stands for \<open>ValueError\<close>, raised by \<open>int\<close>
  or by unpacking a number of parts other than two.
\<close>

definition parse_range :: "string \<Rightarrow> (int \<times> int) option" where
  "parse_range s =
     (case split_on CHR ''-'' s of
        [a, b] \<Rightarrow>
          (case py_int a of
             None \<Rightarrow> None
           | Some lo \<Rightarrow> (case py_int b of None \<Rightarrow> None | Some hi \<Rightarrow> Some (lo, hi)))
      | _ \<Rightarrow> None)"

text \<open>
  \<open>parse_chapter_input\<close> returns the selected chapters together with the messages it
  shows (\<open>st.error\<close>); on every error the list is empty.
\<close>

definition parse_chapter_input :: "dataframe \<Rightarrow> string \<Rightarrow> int list \<times> message list" where
  "parse_chapter_input df s =
     (let avail = all_available_chapters df in
      if s = ''all'' then (avail, [])
      else if CHR ''-'' \<in> set s then
        (case parse_range s of
           Some (lo, hi) \<Rightarrow> (filter (\<lambda>ch. lo \<le> ch \<and> ch \<le> hi) avail, [])
         | None \<Rightarrow> ([], [Error_invalid_range]))
      else
        (case those (map (\<lambda>t. py_int (strip t)) (split_on CHR '','' s)) of
           Some sel \<Rightarrow>
             if list_all (\<lambda>ch. ch \<in> set avail) sel then (sel, [])
             else ([], [Error_chapters_missing])
         | None \<Rightarrow> ([], [Error_invalid_format])))"




section \<open>The external sheet and its transport\<close>

text \<open>
  A row of the sheet as the read returns it. The three columns that the loader passes
  through \<open>pd.to_numeric(errors='coerce')\<close> hold \<open>Some n\<close> for a number and \<open>None\<close> for a
  cell that is empty or not numeric.
\<close>

record raw_row =
  raw_chapter :: int
  raw_question_no :: "int option"
  raw_question :: string
  raw_option_a :: string
  raw_option_b :: string
  raw_option_c :: string
  raw_option_d :: string
  raw_correct_answer :: string
  raw_reason :: string
  raw_attempted :: "int option"
  raw_incorrect_attempt :: "int option"

text \<open>What can go wrong inside one call of the single-cell write.\<close>

datatype fault = No_fault | Auth_fault | Header_fault | Update_fault

text \<open>
  The world outside the session: the sheet (header row and data rows), a clock in seconds,
  the two caches (\<open>st.cache_data(ttl=600)\<close> around the loader, \<open>ttl=5\<close> inside \<open>conn.read\<close>),
  the transport's behaviour (whether a read at a given time fails, what goes wrong in the
  n-th write call), and the trace of the write calls made so far.
\<close>

record world =
  ws_headers :: "string list"
  ws_rows :: "raw_row list"
  clock :: nat
  data_cache :: "(nat \<times> dataframe \<times> message list) option"
  read_cache :: "(nat \<times> string list \<times> raw_row list) option"
  read_fails :: "nat \<Rightarrow> bool"
  faults :: "nat \<Rightarrow> fault"
  calls :: "(nat \<times> string \<times> int) list"

datatype stage =
  Chapter_selection | Mode_selection | Num_questions_selection | Quiz_in_progress | Quiz_finished

datatype mode = Normal | Incorrect | New

text \<open>The radio button's keys \<open>'a'\<close> to \<open>'d'\<close>.\<close>

datatype choice = Choice_a | Choice_b | Choice_c | Choice_d

fun choice_key :: "choice \<Rightarrow> string" where
  "choice_key Choice_a = ''a''"
| "choice_key Choice_b = ''b''"
| "choice_key Choice_c = ''c''"
| "choice_key Choice_d = ''d''"

text \<open>Two labels compared without regard to case, as the specification words the grading.\<close>

definition same_label :: "string \<Rightarrow> string \<Rightarrow> bool" where
  "same_label x y = (lower x = lower y)"

text \<open>\<open>st.session_state\<close>\<close>

record session =
  quiz_stage :: stage
  data_df :: dataframe
  selected_chapters :: "int list"
  practice_mode :: "mode option"
  num_questions_to_ask :: int
  quiz_questions :: dataframe
  current_question_idx :: nat
  correct_answers_count :: nat
  total_questions_asked :: nat
  attempted_counts :: "nat \<rightharpoonup> int"
  incorrect_attempt_counts :: "nat \<rightharpoonup> int"

text \<open>
  The whole application state: the session, the world, and the messages shown so far.
  Every function of the source can reach all three.
\<close>

record app =
  st :: session
  env :: world
  shown :: "message list"

datatype exn = KeyError | IndexError | TypeError | ValueError | ZeroDivisionError | APIError

text \<open>
  How a run of the script ends: it returns, an exception escapes, or \<open>st.stop()\<close> halts it.
\<close>

datatype outcome = Returned | Raised exn | Stopped

section \<open>Loading\<close>

text \<open>\<open>pd.to_numeric(col, errors='coerce').fillna(0).astype(int)\<close>\<close>

definition coerce :: "int option \<Rightarrow> int" where
  "coerce c = (case c of None \<Rightarrow> 0 | Some n \<Rightarrow> n)"

definition normalise_row :: "bool \<Rightarrow> nat \<times> raw_row \<Rightarrow> nat \<times> question" where
  "normalise_row has_no ir =
     (case ir of (i, r) \<Rightarrow>
        (i, \<lparr>q_chapter = raw_chapter r,
             q_question_no = (if has_no then coerce (raw_question_no r) else int i + 1),
             q_question = raw_question r,
             q_option_a = raw_option_a r,
             q_option_b = raw_option_b r,
             q_option_c = raw_option_c r,
             q_option_d = raw_option_d r,
             q_correct_answer = raw_correct_answer r,
             q_reason = raw_reason r,
             q_attempted = coerce (raw_attempted r),
             q_incorrect_attempt = coerce (raw_incorrect_attempt r)\<rparr>))"

text \<open>
  \<open>conn.read(..., ttl=5)\<close>: the table read at most five seconds ago, or a fresh read of
  the sheet; \<open>None\<close> when the read raises.
\<close>

definition fetch :: "world \<Rightarrow> (string list \<times> raw_row list) option \<times> world" where
  "fetch w =
     (if read_fails w (clock w) then (None, w)
      else (Some (ws_headers w, ws_rows w),
            w\<lparr>read_cache := Some (clock w, ws_headers w, ws_rows w)\<rparr>))"

definition conn_read :: "world \<Rightarrow> (string list \<times> raw_row list) option \<times> world" where
  "conn_read w =
     (case read_cache w of
        None \<Rightarrow> fetch w
      | Some (t, tab) \<Rightarrow> if clock w < t + 5 then (Some tab, w) else fetch w)"

text \<open>
  The body of \<open>load_data_from_gsheets\<close>. Any exception inside its \<open>try\<close> (the read, or a
  missing counter column) shows an error and stops the script: the result is \<open>None\<close>.
\<close>

definition load_body :: "world \<Rightarrow> dataframe option \<times> message list \<times> world" where
  "load_body w =
     (case conn_read w of
        (None, w') \<Rightarrow> (None, [Error_load_failed], w')
      | (Some (hdr, rows), w') \<Rightarrow>
          if \<not> (''Attempted'' \<in> set hdr \<and> ''Incorrect attempt'' \<in> set hdr)
          then (None, [Error_load_failed], w')
          else if ''Question No.'' \<in> set hdr
          then (Some (map (normalise_row True) (enumerate 0 rows)), [], w')
          else (Some (map (normalise_row False) (enumerate 0 rows)),
                [Warning_question_no_missing], w'))"

text \<open>
  \<open>@st.cache_data(ttl=600)\<close>: a result stored less than 600 seconds ago is returned (and
  its messages replayed) without running the body; a run that stops stores nothing.
\<close>

definition run_and_store :: "world \<Rightarrow> dataframe option \<times> message list \<times> world" where
  "run_and_store w =
     (case load_body w of
        (None, msgs, w') \<Rightarrow> (None, msgs, w')
      | (Some df, msgs, w') \<Rightarrow> (Some df, msgs, w'\<lparr>data_cache := Some (clock w', df, msgs)\<rparr>))"

definition load_data_from_gsheets :: "world \<Rightarrow> dataframe option \<times> message list \<times> world" where
  "load_data_from_gsheets w =
     (case data_cache w of
        None \<Rightarrow> run_and_store w
      | Some (t, df, msgs) \<Rightarrow>
          if clock w < t + 600 then (Some df, msgs, w) else run_and_store w)"

text \<open>\<open>df[col].to_dict()\<close>: from index label to the column's value.\<close>

definition to_dict :: "(question \<Rightarrow> int) \<Rightarrow> dataframe \<Rightarrow> (nat \<rightharpoonup> int)" where
  "to_dict col df = map_of (map (\<lambda>(i, q). (i, col q)) df)"

definition fresh_session :: "dataframe \<Rightarrow> session" where
  "fresh_session df =
     \<lparr>quiz_stage = Chapter_selection,
      data_df = df,
      selected_chapters = [],
      practice_mode = None,
      num_questions_to_ask = 0,
      quiz_questions = [],
      current_question_idx = 0,
      correct_answers_count = 0,
      total_questions_asked = 0,
      attempted_counts = to_dict q_attempted df,
      incorrect_attempt_counts = to_dict q_incorrect_attempt df\<rparr>"

text \<open>
  Session initialisation (the first run of the script): \<open>None\<close> when the load stops the
  script; the session is then left without its table and is not followed further.
\<close>

definition start_session :: "world \<Rightarrow> app option" where
  "start_session w =
     (case load_data_from_gsheets w of
        (None, msgs, w') \<Rightarrow> None
      | (Some df, msgs, w') \<Rightarrow> Some \<lparr>st = fresh_session df, env = w', shown = msgs\<rparr>)"

text \<open>Time passing between two interactions.\<close>

definition elapse :: "nat \<Rightarrow> app \<Rightarrow> app" where
  "elapse secs a = a\<lparr>env := (env a)\<lparr>clock := clock (env a) + secs\<rparr>\<rparr>"

section \<open>Writing one cell\<close>

text \<open>\<open>headers.index(col_name)\<close> for a name that occurs in the list.\<close>

definition index_of :: "'a \<Rightarrow> 'a list \<Rightarrow> nat" where
  "index_of x xs = length (takeWhile (\<lambda>y. y \<noteq> x) xs)"

function show_nat :: "nat \<Rightarrow> string" where
  "show_nat n =
     (if n < 10 then [''0123456789'' ! n]
      else show_nat (n div 10) @ [''0123456789'' ! (n mod 10)])"
  by pat_completeness auto
termination
  by (relation "measure (\<lambda>n. n)") auto

definition show_int :: "int \<Rightarrow> string" where
  "show_int v = (if v < 0 then CHR ''-'' # show_nat (nat (- v)) else show_nat (nat v))"

text \<open>What a row of the sheet reads as after the named column was overwritten by a number.\<close>

definition set_column :: "string \<Rightarrow> int \<Rightarrow> raw_row \<Rightarrow> raw_row" where
  "set_column name v r =
     (if name = ''Attempted'' then r\<lparr>raw_attempted := Some v\<rparr>
      else if name = ''Incorrect attempt'' then r\<lparr>raw_incorrect_attempt := Some v\<rparr>
      else if name = ''Question No.'' then r\<lparr>raw_question_no := Some v\<rparr>
      else if name = ''Chapter'' then r\<lparr>raw_chapter := v\<rparr>
      else if name = ''Question'' then r\<lparr>raw_question := show_int v\<rparr>
      else if name = ''Option A'' then r\<lparr>raw_option_a := show_int v\<rparr>
      else if name = ''Option B'' then r\<lparr>raw_option_b := show_int v\<rparr>
      else if name = ''Option C'' then r\<lparr>raw_option_c := show_int v\<rparr>
      else if name = ''Option D'' then r\<lparr>raw_option_d := show_int v\<rparr>
      else if name = ''Correct Answer'' then r\<lparr>raw_correct_answer := show_int v\<rparr>
      else if name = ''Reason'' then r\<lparr>raw_reason := show_int v\<rparr>
      else r)"

text \<open>
  \<open>update_gsheet_cell\<close>. The first \<open>try\<close> covers authentication and opening the sheet; the
  header row is read outside every \<open>try\<close>, so a failure there escapes as an exception; the
  column lookup and the cell update each have their own handler. A cell below the last
  data row is outside the modelled grid and is refused by the service.
\<close>

definition update_gsheet_cell :: "nat \<Rightarrow> string \<Rightarrow> int \<Rightarrow> app \<Rightarrow> outcome \<times> app" where
  "update_gsheet_cell row_index col_name v a =
     (let w = env a;
          f = faults w (length (calls w));
          a1 = a\<lparr>env := w\<lparr>calls := calls w @ [(row_index, col_name, v)]\<rparr>\<rparr>
      in
      if f = Auth_fault then (Returned, a1\<lparr>shown := shown a1 @ [Error_authentication]\<rparr>)
      else if f = Header_fault then (Raised APIError, a1)
      else if col_name \<notin> set (ws_headers w)
      then (Returned, a1\<lparr>shown := shown a1 @ [Error_column_not_found col_name]\<rparr>)
      else
        (let col_index_to_update = index_of col_name (ws_headers w) + 1;
             gsheet_row_number = row_index + 2
         in
         if f = Update_fault \<or> \<not> row_index < length (ws_rows w)
         then (Returned,
               a1\<lparr>shown := shown a1 @ [Error_update_failed gsheet_row_number col_index_to_update]\<rparr>)
         else (Returned,
               a1\<lparr>env := (env a1)\<lparr>ws_rows :=
                      (ws_rows w)[row_index := set_column col_name v (ws_rows w ! row_index)]\<rparr>\<rparr>)))"

section \<open>Filtering questions\<close>

definition get_question_counts_streamlit ::
  "dataframe \<Rightarrow> int list \<Rightarrow> (nat \<rightharpoonup> int) \<Rightarrow> (nat \<rightharpoonup> int) \<Rightarrow> nat \<times> nat \<times> nat" where
  "get_question_counts_streamlit df chapters att inc =
     (let filtered_df = filter (\<lambda>(i, q). q_chapter q \<in> set chapters) df;
          total_selected_questions = length filtered_df;
          incorrect_count =
            length (filter (\<lambda>(i, q). (case inc i of None \<Rightarrow> 0 | Some c \<Rightarrow> c) > 0) filtered_df);
          new_count =
            length (filter (\<lambda>(i, q). (case att i of None \<Rightarrow> 0 | Some c \<Rightarrow> c) = 0) filtered_df)
      in (total_selected_questions, incorrect_count, new_count))"

text \<open>
  \<open>get_questions_for_mode_streamlit\<close>. The index lists are built from the dictionaries'
  items, so a label is in \<open>incorrect_q_indices\<close> when the dictionary holds a positive
  count for it, and in \<open>new_q_indices\<close> when it holds the count 0. For a mode that is none
  of the three the function falls off its end and returns Python's \<open>None\<close>.
\<close>

definition get_questions_for_mode_streamlit ::
  "dataframe \<Rightarrow> int list \<Rightarrow> mode option \<Rightarrow> (nat \<rightharpoonup> int) \<Rightarrow> (nat \<rightharpoonup> int) \<Rightarrow> dataframe option" where
  "get_questions_for_mode_streamlit df chapters m att inc =
     (let filtered_df = filter (\<lambda>(i, q). q_chapter q \<in> set chapters) df in
      case m of
        Some Normal \<Rightarrow> Some filtered_df
      | Some Incorrect \<Rightarrow>
          Some (filter (\<lambda>(i, q). case inc i of None \<Rightarrow> False | Some c \<Rightarrow> c > 0) filtered_df)
      | Some New \<Rightarrow>
          Some (filter (\<lambda>(i, q). case att i of None \<Rightarrow> False | Some c \<Rightarrow> c = 0) filtered_df)
      | None \<Rightarrow> None)"

section \<open>The stages of the quiz\<close>

text \<open>
  Each button is a function of the application state. A button that the current stage
  does not show cannot be pressed: the function then leaves the state as it is.
\<close>

subsection \<open>Chapter selection\<close>

definition confirm_chapters :: "string \<Rightarrow> app \<Rightarrow> app" where
  "confirm_chapters chapter_input a =
     (if quiz_stage (st a) \<noteq> Chapter_selection then a
      else
        (case parse_chapter_input (data_df (st a)) chapter_input of
           (selected_chs, msgs) \<Rightarrow>
             (let a1 = a\<lparr>shown := shown a @ msgs\<rparr> in
              if selected_chs \<noteq> []
              then a1\<lparr>st := (st a1)\<lparr>selected_chapters := selected_chs,
                                     quiz_stage := Mode_selection\<rparr>\<rparr>
              else a1)))"

subsection \<open>Mode selection\<close>

definition mode_options :: "session \<Rightarrow> mode list" where
  "mode_options s =
     (case get_question_counts_streamlit (data_df s) (selected_chapters s)
             (attempted_counts s) (incorrect_attempt_counts s) of
        (total_selected_questions, incorrect_count, new_count) \<Rightarrow>
          (if total_selected_questions > 0 then [Normal] else [])
          @ (if incorrect_count > 0 then [Incorrect] else [])
          @ (if new_count > 0 then [New] else []))"

definition select_mode :: "mode \<Rightarrow> app \<Rightarrow> app" where
  "select_mode m a =
     (if quiz_stage (st a) = Mode_selection \<and> m \<in> set (mode_options (st a))
      then a\<lparr>st := (st a)\<lparr>practice_mode := Some m, quiz_stage := Num_questions_selection\<rparr>\<rparr>
      else a)"

definition back_to_chapter_selection :: "app \<Rightarrow> app" where
  "back_to_chapter_selection a =
     (if quiz_stage (st a) = Mode_selection \<and> mode_options (st a) = []
      then a\<lparr>st := (st a)\<lparr>quiz_stage := Chapter_selection\<rparr>\<rparr>
      else a)"

subsection \<open>Number of questions\<close>

text \<open>
  \<open>DataFrame.sample(n)\<close> draws \<open>n\<close> rows without replacement. The random source is a list
  of numbers: each draw takes the row at the next number (modulo the rows left) out of
  the remaining rows. Asking for more rows than there are raises \<open>ValueError\<close>.
\<close>

fun draw :: "nat list \<Rightarrow> nat \<Rightarrow> 'a list \<Rightarrow> 'a list" where
  "draw rs 0 xs = []"
| "draw rs (Suc n) xs =
     (if xs = [] then []
      else
        (let k = (case rs of [] \<Rightarrow> 0 | r # rest \<Rightarrow> r mod length xs) in
         xs ! k # draw (tl rs) n (take k xs @ drop (Suc k) xs)))"

definition sample :: "nat list \<Rightarrow> nat \<Rightarrow> 'a list \<Rightarrow> 'a list option" where
  "sample rs n xs = (if length xs < n then None else Some (draw rs n xs))"

definition quiz_pool :: "session \<Rightarrow> dataframe option" where
  "quiz_pool s =
     get_questions_for_mode_streamlit (data_df s) (selected_chapters s) (practice_mode s)
       (attempted_counts s) (incorrect_attempt_counts s)"

definition back_to_mode_selection :: "app \<Rightarrow> app" where
  "back_to_mode_selection a =
     (if quiz_stage (st a) = Num_questions_selection \<and> quiz_pool (st a) = Some []
      then a\<lparr>st := (st a)\<lparr>quiz_stage := Mode_selection\<rparr>\<rparr>
      else a)"

definition start_quiz :: "nat list \<Rightarrow> int \<Rightarrow> app \<Rightarrow> outcome \<times> app" where
  "start_quiz rs num_questions a =
     (if quiz_stage (st a) \<noteq> Num_questions_selection then (Returned, a)
      else
        (case quiz_pool (st a) of
           None \<Rightarrow> (Raised TypeError, a)
         | Some quiz_pool_df \<Rightarrow>
             (let max_questions_available = length quiz_pool_df in
              if max_questions_available = 0 then (Returned, a)
              else if num_questions > 0 \<and> num_questions \<le> int max_questions_available
              then
                (case (if num_questions < int max_questions_available
                       then sample rs (nat num_questions) quiz_pool_df
                       else Some quiz_pool_df) of
                   None \<Rightarrow> (Raised ValueError, a)
                 | Some qs \<Rightarrow>
                     (Returned,
                      a\<lparr>st := (st a)\<lparr>num_questions_to_ask := num_questions,
                                      quiz_questions := qs,
                                      total_questions_asked := length qs,
                                      current_question_idx := 0,
                                      correct_answers_count := 0,
                                      quiz_stage := Quiz_in_progress\<rparr>\<rparr>))
              else
                (Returned,
                 a\<lparr>shown := shown a @ [Error_count_out_of_bounds max_questions_available]\<rparr>))))"

subsection \<open>Quiz in progress\<close>

text \<open>
  The submit handler. \<open>counts[k] += 1\<close> raises \<open>KeyError\<close> for a label the dictionary does not
  hold; \<open>counts[k] = 0\<close> does not. An exception that escapes a write ends the run where it
  is, with the changes made so far kept in the session.
\<close>

definition submit_answer :: "choice \<Rightarrow> app \<Rightarrow> outcome \<times> app" where
  "submit_answer user_choice a =
     (let s = st a in
      if \<not> (quiz_stage s = Quiz_in_progress
              \<and> current_question_idx s < total_questions_asked s)
      then (Returned, a)
      else if \<not> current_question_idx s < length (quiz_questions s) then (Raised IndexError, a)
      else
        (case quiz_questions s ! current_question_idx s of
           (original_df_index, current_q_data) \<Rightarrow>
             (let correct_answer_key = lower (q_correct_answer current_q_data) in
              case attempted_counts s original_df_index of
                None \<Rightarrow> (Raised KeyError, a)
              | Some n \<Rightarrow>
                  (let a1 = a\<lparr>st := s\<lparr>attempted_counts :=
                                          (attempted_counts s)(original_df_index \<mapsto> n + 1)\<rparr>\<rparr>
                   in
                   case update_gsheet_cell original_df_index ''Attempted'' (n + 1) a1 of
                     (Raised e, a2) \<Rightarrow> (Raised e, a2)
                   | (Stopped, a2) \<Rightarrow> (Stopped, a2)
                   | (Returned, a2) \<Rightarrow>
                       if choice_key user_choice = correct_answer_key
                       then
                         (let a3 = a2\<lparr>shown := shown a2 @ [Success_correct],
                                      st := (st a2)\<lparr>correct_answers_count :=
                                                      correct_answers_count (st a2) + 1,
                                                    incorrect_attempt_counts :=
                                                      (incorrect_attempt_counts (st a2))
                                                        (original_df_index \<mapsto> 0)\<rparr>\<rparr>
                          in
                          case update_gsheet_cell original_df_index ''Incorrect attempt'' 0 a3 of
                            (Raised e, a4) \<Rightarrow> (Raised e, a4)
                          | (Stopped, a4) \<Rightarrow> (Stopped, a4)
                          | (Returned, a4) \<Rightarrow>
                              (Returned,
                               a4\<lparr>st := (st a4)\<lparr>current_question_idx :=
                                                   current_question_idx (st a4) + 1\<rparr>\<rparr>))
                       else
                         (let a3 = a2\<lparr>shown := shown a2 @
                                        [Error_incorrect (upper correct_answer_key),
                                         Warning_reason (q_reason current_q_data)]\<rparr>
                          in
                          case incorrect_attempt_counts (st a3) original_df_index of
                            None \<Rightarrow> (Raised KeyError, a3)
                          | Some k \<Rightarrow>
                              (let a3' = a3\<lparr>st := (st a3)\<lparr>incorrect_attempt_counts :=
                                                (incorrect_attempt_counts (st a3))
                                                  (original_df_index \<mapsto> k + 1)\<rparr>\<rparr>
                               in
                               case update_gsheet_cell original_df_index ''Incorrect attempt''
                                      (k + 1) a3' of
                                 (Raised e, a4) \<Rightarrow> (Raised e, a4)
                               | (Stopped, a4) \<Rightarrow> (Stopped, a4)
                               | (Returned, a4) \<Rightarrow>
                                   (Returned,
                                    a4\<lparr>st := (st a4)\<lparr>current_question_idx :=
                                                        current_question_idx (st a4) + 1\<rparr>\<rparr>)))))))"

text \<open>The run that finds the cursor at the end moves on to the final stage.\<close>

definition finish_quiz :: "app \<Rightarrow> app" where
  "finish_quiz a =
     (if quiz_stage (st a) = Quiz_in_progress
         \<and> \<not> current_question_idx (st a) < total_questions_asked (st a)
      then a\<lparr>st := (st a)\<lparr>quiz_stage := Quiz_finished\<rparr>\<rparr>
      else a)"

subsection \<open>Quiz finished\<close>

text \<open>
  Python's \<open>/\<close> raises \<open>ZeroDivisionError\<close> for a zero divisor. The quotient is taken as the
  exact rational number; the rounding of Python's floating point is not modelled.
\<close>

definition py_truediv :: "nat \<Rightarrow> nat \<Rightarrow> exn + rat" where
  "py_truediv x y = (if y = 0 then Inl ZeroDivisionError else Inr (Fract (int x) (int y)))"

definition percentage :: "nat \<Rightarrow> nat \<Rightarrow> exn + rat" where
  "percentage correct tot =
     (if tot = 0 then Inr 0
      else (case py_truediv correct tot of
              Inl e \<Rightarrow> Inl e
            | Inr x \<Rightarrow> Inr (x * 100)))"

text \<open>The three colour styles of the final score: high, medium and low.\<close>

datatype band = Darkgreen | Darkorange | Red

definition color_style :: "rat \<Rightarrow> band" where
  "color_style p = (if p \<ge> 80 then Darkgreen else if p \<ge> 70 then Darkorange else Red)"

definition quiz_finished :: "session \<Rightarrow> exn + (rat \<times> band)" where
  "quiz_finished s =
     (case percentage (correct_answers_count s) (total_questions_asked s) of
        Inl e \<Rightarrow> Inl e
      | Inr p \<Rightarrow> Inr (p, color_style p))"

text \<open>
  The restart button: the loader is called again (through its cache) and every other
  field of the session is set to its initial value.
\<close>

definition start_new_quiz :: "app \<Rightarrow> outcome \<times> app" where
  "start_new_quiz a =
     (if quiz_stage (st a) \<noteq> Quiz_finished then (Returned, a)
      else
        (case load_data_from_gsheets (env a) of
           (None, msgs, w') \<Rightarrow> (Stopped, a\<lparr>env := w', shown := shown a @ msgs\<rparr>)
         | (Some df, msgs, w') \<Rightarrow>
             (Returned,
              a\<lparr>env := w',
                shown := shown a @ msgs,
                st := (st a)\<lparr>data_df := df,
                              attempted_counts := to_dict q_attempted df,
                              incorrect_attempt_counts := to_dict q_incorrect_attempt df,
                              quiz_stage := Chapter_selection,
                              selected_chapters := [],
                              practice_mode := None,
                              num_questions_to_ask := 0,
                              quiz_questions := [],
                              current_question_idx := 0,
                              correct_answers_count := 0,
                              total_questions_asked := 0\<rparr>\<rparr>)))"

section \<open>A small table to run the definitions on\<close>

definition sheet_headers :: "string list" where
  "sheet_headers =
     [''Chapter'', ''Question No.'', ''Question'', ''Option A'', ''Option B'', ''Option C'',
      ''Option D'', ''Correct Answer'', ''Reason'', ''Attempted'', ''Incorrect attempt'']"

definition sheet_row :: "int \<Rightarrow> string \<Rightarrow> raw_row" where
  "sheet_row ch answer =
     \<lparr>raw_chapter = ch,
      raw_question_no = None,
      raw_question = ''Which one?'',
      raw_option_a = ''first'',
      raw_option_b = ''second'',
      raw_option_c = ''third'',
      raw_option_d = ''fourth'',
      raw_correct_answer = answer,
      raw_reason = ''because'',
      raw_attempted = Some 0,
      raw_incorrect_attempt = Some 0\<rparr>"

text \<open>Three questions, two in chapter 1 and one in chapter 3; nothing fails, nothing is cached.\<close>

definition small_world :: world where
  "small_world =
     \<lparr>ws_headers = sheet_headers,
      ws_rows = [sheet_row 1 ''B'', sheet_row 1 ''c'', sheet_row 3 ''A''],
      clock = 0,
      data_cache = None,
      read_cache = None,
      read_fails = (\<lambda>t. False),
      faults = (\<lambda>n. No_fault),
      calls = []\<rparr>"

definition small_table :: dataframe where
  "small_table = map (normalise_row True) (enumerate 0 (ws_rows small_world))"

definition loaded_row :: "int \<Rightarrow> string \<Rightarrow> question" where
  "loaded_row ch answer = snd (normalise_row True (0, sheet_row ch answer))"

definition small_app :: app where
  "small_app = \<lparr>st = fresh_session small_table, env = small_world, shown = []\<rparr>"

text \<open>
  That table's session after chapter 1 and the mode "new" were chosen, and then with a quiz
  of one question under way.
\<close>

definition small_choice :: app where
  "small_choice = select_mode New (confirm_chapters ''1'' small_app)"

definition small_quiz :: app where
  "small_quiz = snd (start_quiz [1] 1 small_choice)"

text \<open>The same quiz with a transport that fails whenever the header row is read.\<close>

definition faulty_quiz :: app where
  "faulty_quiz = small_quiz\<lparr>env := (env small_quiz)\<lparr>faults := (\<lambda>n. Header_fault)\<rparr>\<rparr>"

text \<open>
  A session opened on the small table (the load fills the cache at time 0), and the same
  session after a quiz of one question in chapter 1 was answered correctly and finished,
  thirty seconds later.
\<close>

definition opened :: app where
  "opened = (case start_session small_world of None \<Rightarrow> small_app | Some a \<Rightarrow> a)"

definition played :: app where
  "played =
     finish_quiz (snd (submit_answer Choice_c (elapse 30
       (snd (start_quiz [1] 1 (select_mode New (confirm_chapters ''1'' opened)))))))"

section \<open>Auxiliary facts about splitting, parsing and drawing\<close>

lemma split_on_nonempty: "split_on c s \<noteq> []"
  by (induction s) (auto split: list.splits)






lemma those_map_Some:
  "those (map f xs) = Some ys \<Longrightarrow> ys = map (\<lambda>x. the (f x)) xs \<and> list_all (\<lambda>x. f x \<noteq> None) xs"
  by (induction xs arbitrary: ys) (auto split: option.splits)

lemma length_draw: "n \<le> length xs \<Longrightarrow> length (draw rs n xs) = n"
proof (induction n arbitrary: rs xs)
  case 0
  then show ?case by simp
next
  case (Suc n)
  then have ne: "xs \<noteq> []" by auto
  define k where "k = (case rs of [] \<Rightarrow> 0 | r # rest \<Rightarrow> r mod length xs)"
  have k: "k < length xs" using ne by (auto simp: k_def split: list.splits)
  have "length (take k xs @ drop (Suc k) xs) = length xs - 1" using k by simp
  with Suc.prems have "n \<le> length (take k xs @ drop (Suc k) xs)" by simp
  from Suc.IH[OF this] show ?case using ne by (simp add: k_def Let_def)
qed

lemma set_draw: "set (draw rs n xs) \<subseteq> set xs"
proof (induction n arbitrary: rs xs)
  case 0
  then show ?case by simp
next
  case (Suc n)
  show ?case
  proof (cases "xs = []")
    case True
    then show ?thesis by simp
  next
    case False
    define k where "k = (case rs of [] \<Rightarrow> 0 | r # rest \<Rightarrow> r mod length xs)"
    have k: "k < length xs" using False by (auto simp: k_def split: list.splits)
    have "set (draw (tl rs) n (take k xs @ drop (Suc k) xs)) \<subseteq> set (take k xs @ drop (Suc k) xs)"
      by (rule Suc.IH)
    also have "\<dots> \<subseteq> set xs"
      by (auto dest: in_set_takeD in_set_dropD)
    finally show ?thesis using False k by (simp add: k_def Let_def)
  qed
qed

lemma distinct_map_draw: "distinct (map f xs) \<Longrightarrow> distinct (map f (draw rs n xs))"
proof (induction n arbitrary: rs xs)
  case 0
  then show ?case by simp
next
  case (Suc n)
  show ?case
  proof (cases "xs = []")
    case True
    then show ?thesis by simp
  next
    case False
    define k where "k = (case rs of [] \<Rightarrow> 0 | r # rest \<Rightarrow> r mod length xs)"
    define ys where "ys = take k xs @ drop (Suc k) xs"
    have k: "k < length xs" using False by (auto simp: k_def split: list.splits)
    have xs: "xs = take k xs @ xs ! k # drop (Suc k) xs"
      using k by (simp add: id_take_nth_drop)
    have "distinct (map f (take k xs @ xs ! k # drop (Suc k) xs))"
      using Suc.prems xs by simp
    then have d: "distinct (map f ys)" and nin: "f (xs ! k) \<notin> f ` set ys"
      by (auto simp: ys_def)
    have "set (draw (tl rs) n ys) \<subseteq> set ys" by (rule set_draw)
    with nin have "f (xs ! k) \<notin> f ` set (draw (tl rs) n ys)" by blast
    moreover have "distinct (map f (draw (tl rs) n ys))" using d by (rule Suc.IH)
    ultimately show ?thesis using False by (simp add: k_def ys_def Let_def)
  qed
qed

section \<open>Auxiliary facts about the chapter parser\<close>

lemma set_all_available_chapters:
  "set (all_available_chapters df) = (\<lambda>iq. q_chapter (snd iq)) ` set df"
  by (force simp: all_available_chapters_def split: prod.splits)

lemma distinct_all_available_chapters: "distinct (all_available_chapters df)"
  by (simp add: all_available_chapters_def)

lemma all_has_no_dash: "CHR ''-'' \<notin> set ''all''"
  by simp





lemma filter_range_empty:
  "filter (\<lambda>ch. lo \<le> ch \<and> ch \<le> hi) xs = [] \<longleftrightarrow> \<not> (\<exists>ch. ch \<in> set xs \<and> lo \<le> ch \<and> ch \<le> hi)"
  by (auto simp: filter_empty_conv)



section \<open>Auxiliary facts about the stages\<close>

lemma confirm_chapters_env: "env (confirm_chapters s a) = env a"
  by (simp add: confirm_chapters_def Let_def split: prod.splits)

lemma select_mode_env: "env (select_mode m a) = env a"
  by (simp add: select_mode_def)

lemma start_quiz_env: "env (snd (start_quiz rs n a)) = env a"
  by (simp add: start_quiz_def Let_def split: option.splits)

lemma quiz_pool_distinct:
  assumes "distinct (map fst (data_df s))" and "quiz_pool s = Some pool"
  shows "distinct (map fst pool)"
  using assms
  by (auto simp: quiz_pool_def get_questions_for_mode_streamlit_def distinct_map_filter Let_def
           split: option.splits mode.splits)

lemma lower_choice_key: "lower (choice_key c) = choice_key c"
  by (cases c) (simp_all add: lower_def lower_char_def)

lemma same_label_choice: "same_label (choice_key c) y \<longleftrightarrow> choice_key c = lower y"
  by (simp add: same_label_def lower_choice_key)

lemma update_gsheet_cell_returns:
  assumes "faults (env a) (length (calls (env a))) \<noteq> Header_fault"
  shows "\<exists>a'. update_gsheet_cell r c v a = (Returned, a') \<and> st a' = st a
       \<and> calls (env a') = calls (env a) @ [(r, c, v)]
       \<and> faults (env a') = faults (env a)"
  using assms by (simp add: update_gsheet_cell_def Let_def)


lemma submit_answer_correct:
  assumes stage: "quiz_stage (st a) = Quiz_in_progress"
    and cur: "current_question_idx (st a) < total_questions_asked (st a)"
    and len: "current_question_idx (st a) < length (quiz_questions (st a))"
    and q: "quiz_questions (st a) ! current_question_idx (st a) = (i, q)"
    and att: "attempted_counts (st a) i = Some n"
    and f1: "faults (env a) (length (calls (env a))) \<noteq> Header_fault"
    and f2: "faults (env a) (Suc (length (calls (env a)))) \<noteq> Header_fault"
    and eq: "choice_key c = lower (q_correct_answer q)"
  shows "\<exists>a'. submit_answer c a = (Returned, a')
      \<and> st a' = (st a)\<lparr>attempted_counts := (attempted_counts (st a))(i \<mapsto> n + 1),
                        correct_answers_count := correct_answers_count (st a) + 1,
                        incorrect_attempt_counts := (incorrect_attempt_counts (st a))(i \<mapsto> 0),
                        current_question_idx := current_question_idx (st a) + 1\<rparr>
      \<and> calls (env a') = calls (env a) @ [(i, ''Attempted'', n + 1), (i, ''Incorrect attempt'', 0)]"
proof -
  define a1 where "a1 = a\<lparr>st := (st a)\<lparr>attempted_counts := (attempted_counts (st a))(i \<mapsto> n + 1)\<rparr>\<rparr>"
  have "faults (env a1) (length (calls (env a1))) \<noteq> Header_fault"
    using f1 by (simp add: a1_def)
  from update_gsheet_cell_returns[OF this, of i "''Attempted''" "n + 1"]
  obtain a2 where a2: "update_gsheet_cell i ''Attempted'' (n + 1) a1 = (Returned, a2)"
    and st2: "st a2 = st a1"
    and c2: "calls (env a2) = calls (env a1) @ [(i, ''Attempted'', n + 1)]"
    and fl2: "faults (env a2) = faults (env a1)"
    by blast
  define a3 where "a3 = a2\<lparr>shown := shown a2 @ [Success_correct],
      st := (st a2)\<lparr>correct_answers_count := correct_answers_count (st a2) + 1,
                    incorrect_attempt_counts := (incorrect_attempt_counts (st a2))(i \<mapsto> 0)\<rparr>\<rparr>"
  have "faults (env a3) (length (calls (env a3))) \<noteq> Header_fault"
    using f2 c2 fl2 by (simp add: a3_def a1_def)
  from update_gsheet_cell_returns[OF this, of i "''Incorrect attempt''" 0]
  obtain a4 where a4: "update_gsheet_cell i ''Incorrect attempt'' 0 a3 = (Returned, a4)"
    and st4: "st a4 = st a3"
    and c4: "calls (env a4) = calls (env a3) @ [(i, ''Incorrect attempt'', 0)]"
    by blast
  have "submit_answer c a
      = (Returned, a4\<lparr>st := (st a4)\<lparr>current_question_idx := current_question_idx (st a4) + 1\<rparr>\<rparr>)"
    using stage cur len q att eq a2[unfolded a1_def] a4[unfolded a3_def]
    by (simp add: submit_answer_def Let_def)
  then show ?thesis
    using st4 st2 c4 c2 by (simp add: a3_def a1_def)
qed



lemma small_table_rows:
  "small_table = [(0, loaded_row 1 ''B''), (1, loaded_row 1 ''c''), (2, loaded_row 3 ''A'')]"
  by (simp add: small_table_def small_world_def loaded_row_def normalise_row_def)



lemma small_quiz_env: "env small_quiz = small_world"
  by (simp add: small_quiz_def small_choice_def start_quiz_env select_mode_env
        confirm_chapters_env small_app_def)

lemma small_quiz_stage: "quiz_stage (st small_quiz) = Quiz_in_progress"
  by code_simp

lemma small_quiz_cursor:
  "current_question_idx (st small_quiz) = 0 \<and> total_questions_asked (st small_quiz) = 1
   \<and> correct_answers_count (st small_quiz) = 0"
  by code_simp

lemma small_quiz_questions: "quiz_questions (st small_quiz) = [small_table ! 1]"
  by code_simp

lemma small_quiz_attempted: "attempted_counts (st small_quiz) 1 = Some 0"
  by code_simp


lemma small_choice_stage: "quiz_stage (st small_choice) = Num_questions_selection"
  by code_simp

lemma small_choice_pool: "quiz_pool (st small_choice) = Some [small_table ! 0, small_table ! 1]"
  by code_simp

lemma small_choice_index: "distinct (map fst (data_df (st small_choice)))"
  by code_simp

section \<open>Grading\<close>



text \<open>
  Claim C7, as the code has it. When a correct answer is graded, the write of the incorrect
  counter is always issued, with the value 0, right after the write of the attempted
  counter: whether the counter was zero before plays no part.
\<close>

theorem correct_answer_writes:
  assumes stage: "quiz_stage (st a) = Quiz_in_progress"
    and cur: "current_question_idx (st a) < total_questions_asked (st a)"
    and len: "current_question_idx (st a) < length (quiz_questions (st a))"
    and q: "quiz_questions (st a) ! current_question_idx (st a) = (i, q)"
    and att: "attempted_counts (st a) i = Some n"
    and f1: "faults (env a) (length (calls (env a))) \<noteq> Header_fault"
    and f2: "faults (env a) (Suc (length (calls (env a)))) \<noteq> Header_fault"
    and eq: "same_label (choice_key c) (q_correct_answer q)"
  shows "\<exists>a'. submit_answer c a = (Returned, a')
      \<and> calls (env a') = calls (env a) @ [(i, ''Attempted'', n + 1), (i, ''Incorrect attempt'', 0)]"
proof -
  from eq have "choice_key c = lower (q_correct_answer q)"
    by (rule iffD1[OF same_label_choice])
  from submit_answer_correct[OF stage cur len q att f1 f2 this]
  show ?thesis by blast
qed

theorem correct_answer_writes_witness:
  "\<exists>a'. submit_answer Choice_c small_quiz = (Returned, a')
      \<and> calls (env a') = [(1, ''Attempted'', 1), (1, ''Incorrect attempt'', 0)]"
proof -
  let ?q = "snd (small_table ! 1)"
  have cur: "current_question_idx (st small_quiz) < total_questions_asked (st small_quiz)"
    by (simp add: small_quiz_cursor)
  have len: "current_question_idx (st small_quiz) < length (quiz_questions (st small_quiz))"
    by (simp add: small_quiz_cursor small_quiz_questions)
  have at: "quiz_questions (st small_quiz) ! current_question_idx (st small_quiz) = (1, ?q)"
    by code_simp
  have f1: "faults (env small_quiz) (length (calls (env small_quiz))) \<noteq> Header_fault"
    by (simp add: small_quiz_env small_world_def)
  have f2: "faults (env small_quiz) (Suc (length (calls (env small_quiz)))) \<noteq> Header_fault"
    by (simp add: small_quiz_env small_world_def)
  have right: "same_label (choice_key Choice_c) (q_correct_answer ?q)"
    by code_simp
  from correct_answer_writes[OF small_quiz_stage cur len at small_quiz_attempted f1 f2 right]
  show ?thesis by (simp add: small_quiz_env small_world_def)
qed

text \<open>
  Claim C7 as stated fails: in the small quiz the incorrect counter of the question is 0,
  the answer \<open>c\<close> is correct, and the write of the incorrect counter is issued all the same.
\<close>

theorem write_on_zero_counter:
  "incorrect_attempt_counts (st small_quiz) 1 = Some 0
   \<and> same_label (choice_key Choice_c)
        (q_correct_answer (snd (quiz_questions (st small_quiz) ! current_question_idx (st small_quiz))))
   \<and> fst (submit_answer Choice_c small_quiz) = Returned
   \<and> (1, ''Incorrect attempt'', 0) \<in> set (calls (env (snd (submit_answer Choice_c small_quiz))))"
  by code_simp

section \<open>Starting the quiz\<close>

text \<open>
  Claim C3. With a pool of size M (drawn from a table whose index labels are distinct) and
  a requested count N with 1 \<le> N \<le> M, the start button returns with a quiz of exactly N
  questions, whose identities are distinct and which all come from the pool; when N = M
  the quiz is the whole pool as it stands. The cursor and the score start at 0.
\<close>

theorem start_quiz_samples:
  assumes stage: "quiz_stage (st a) = Num_questions_selection"
    and pool: "quiz_pool (st a) = Some pool"
    and idx: "distinct (map fst (data_df (st a)))"
    and lo: "1 \<le> n"
    and hi: "n \<le> int (length pool)"
  shows "\<exists>a'. start_quiz rs n a = (Returned, a')
      \<and> quiz_stage (st a') = Quiz_in_progress
      \<and> length (quiz_questions (st a')) = nat n
      \<and> distinct (map fst (quiz_questions (st a')))
      \<and> set (quiz_questions (st a')) \<subseteq> set pool
      \<and> (n = int (length pool) \<longrightarrow> quiz_questions (st a') = pool)
      \<and> total_questions_asked (st a') = nat n
      \<and> current_question_idx (st a') = 0
      \<and> correct_answers_count (st a') = 0"
proof -
  have d: "distinct (map fst pool)" using idx pool by (rule quiz_pool_distinct)
  have ne: "length pool \<noteq> 0" using lo hi by auto
  show ?thesis
  proof (cases "n < int (length pool)")
    case True
    then have le: "nat n \<le> length pool" by simp
    have s: "sample rs (nat n) pool = Some (draw rs (nat n) pool)"
      using le by (simp add: sample_def)
    show ?thesis
      using stage pool lo hi ne True s length_draw[OF le, of rs]
        set_draw[of rs "nat n" pool] distinct_map_draw[OF d, of rs "nat n"]
      by (simp add: start_quiz_def Let_def)
  next
    case False
    with hi have "n = int (length pool)" by simp
    then show ?thesis
      using stage pool lo ne d by (simp add: start_quiz_def Let_def)
  qed
qed

theorem start_quiz_samples_witness:
  "(\<exists>a'. start_quiz [1] 1 small_choice = (Returned, a')
      \<and> quiz_stage (st a') = Quiz_in_progress
      \<and> length (quiz_questions (st a')) = 1
      \<and> distinct (map fst (quiz_questions (st a')))
      \<and> set (quiz_questions (st a')) \<subseteq> {small_table ! 0, small_table ! 1})
   \<and> (\<exists>a'. start_quiz [1] 2 small_choice = (Returned, a')
      \<and> quiz_questions (st a') = [small_table ! 0, small_table ! 1])"
proof -
  note g = start_quiz_samples[OF small_choice_stage small_choice_pool small_choice_index]
  from g[of 1 "[1]"] g[of 2 "[1]"] show ?thesis by auto
qed

section \<open>The pools of the three modes\<close>

text \<open>
  Claim C6. For every table, chapter list and pair of counter dictionaries, the pool of
  mode "new" is exactly the part of the "normal" pool whose attempted counter is 0, the
  pool of mode "incorrect" is exactly the part of the "normal" pool whose incorrect
  counter is above 0, and both are contained in the "normal" pool.
\<close>

theorem pools_by_mode:
  "\<exists>pool. get_questions_for_mode_streamlit df chs (Some Normal) att inc = Some pool
      \<and> get_questions_for_mode_streamlit df chs (Some New) att inc
          = Some (filter (\<lambda>(i, q). att i = Some 0) pool)
      \<and> get_questions_for_mode_streamlit df chs (Some Incorrect) att inc
          = Some (filter (\<lambda>(i, q). \<exists>c. inc i = Some c \<and> 0 < c) pool)
      \<and> set (filter (\<lambda>(i, q). att i = Some 0) pool) \<subseteq> set pool
      \<and> set (filter (\<lambda>(i, q). \<exists>c. inc i = Some c \<and> 0 < c) pool) \<subseteq> set pool"
proof -
  have 1: "(\<lambda>(i, q). case att i of None \<Rightarrow> False | Some c \<Rightarrow> c = 0)
         = (\<lambda>(i, q::question). att i = Some 0)"
    by (auto simp: fun_eq_iff split: option.splits)
  have 2: "(\<lambda>(i, q). case inc i of None \<Rightarrow> False | Some c \<Rightarrow> c > 0)
         = (\<lambda>(i, q::question). \<exists>c. inc i = Some c \<and> 0 < c)"
    by (auto simp: fun_eq_iff split: option.splits)
  show ?thesis
    by (simp add: get_questions_for_mode_streamlit_def 1 2)
qed

theorem pools_by_mode_witness:
  "get_questions_for_mode_streamlit small_table [1] (Some Normal) [0 \<mapsto> 0, 1 \<mapsto> 2] [0 \<mapsto> 0, 1 \<mapsto> 1]
     = Some [(0, loaded_row 1 ''B''), (1, loaded_row 1 ''c'')]
   \<and> get_questions_for_mode_streamlit small_table [1] (Some New) [0 \<mapsto> 0, 1 \<mapsto> 2] [0 \<mapsto> 0, 1 \<mapsto> 1]
     = Some [(0, loaded_row 1 ''B'')]
   \<and> get_questions_for_mode_streamlit small_table [1] (Some Incorrect) [0 \<mapsto> 0, 1 \<mapsto> 2] [0 \<mapsto> 0, 1 \<mapsto> 1]
     = Some [(1, loaded_row 1 ''c'')]"
proof -
  let ?att = "[0 \<mapsto> 0, 1 \<mapsto> (2::int)]" and ?inc = "[0 \<mapsto> 0, 1 \<mapsto> (1::int)]"
  have n: "get_questions_for_mode_streamlit small_table [1] (Some Normal) ?att ?inc
           = Some [(0, loaded_row 1 ''B''), (1, loaded_row 1 ''c'')]"
    by (simp add: get_questions_for_mode_streamlit_def small_table_rows loaded_row_def
          normalise_row_def sheet_row_def)
  from pools_by_mode[of small_table "[1]" ?att ?inc]
  obtain pool where p: "get_questions_for_mode_streamlit small_table [1] (Some Normal) ?att ?inc = Some pool"
    and new: "get_questions_for_mode_streamlit small_table [1] (Some New) ?att ?inc
          = Some (filter (\<lambda>(i, q). ?att i = Some 0) pool)"
    and inc: "get_questions_for_mode_streamlit small_table [1] (Some Incorrect) ?att ?inc
          = Some (filter (\<lambda>(i, q). \<exists>c. ?inc i = Some c \<and> 0 < c) pool)"
    by blast
  from p n have pool: "pool = [(0, loaded_row 1 ''B''), (1, loaded_row 1 ''c'')]" by simp
  show ?thesis
    unfolding new inc n pool by simp
qed

section \<open>The final score\<close>

text \<open>
  Claim C10. In the final stage no division by zero occurs: the computation always yields a
  percentage and a band. With no question asked the percentage is 0 and the band is the
  low one (red); otherwise the percentage is correct / total * 100, and the band is the
  high one from 80, the medium one from 70 and below 80, and the low one below 70.
\<close>

theorem finished_score:
  "\<exists>p b. quiz_finished s = Inr (p, b)
      \<and> (total_questions_asked s = 0 \<longrightarrow> p = 0 \<and> b = Red)
      \<and> (0 < total_questions_asked s \<longrightarrow>
            p = of_nat (correct_answers_count s) / of_nat (total_questions_asked s) * 100
            \<and> (b = Darkgreen \<longleftrightarrow> 80 \<le> p)
            \<and> (b = Darkorange \<longleftrightarrow> 70 \<le> p \<and> p < 80)
            \<and> (b = Red \<longleftrightarrow> p < 70))"
  by (auto simp: quiz_finished_def percentage_def py_truediv_def color_style_def
        Fract_of_int_quotient)

theorem finished_score_witness:
  "quiz_finished ((st small_quiz)\<lparr>correct_answers_count := 4, total_questions_asked := 5\<rparr>)
     = Inr (80, Darkgreen)
   \<and> quiz_finished ((st small_quiz)\<lparr>correct_answers_count := 0, total_questions_asked := 0\<rparr>)
     = Inr (0, Red)"
proof -
  let ?s1 = "(st small_quiz)\<lparr>correct_answers_count := 4, total_questions_asked := 5\<rparr>"
  let ?s0 = "(st small_quiz)\<lparr>correct_answers_count := 0, total_questions_asked := 0\<rparr>"
  from finished_score[of ?s1]
  have "\<exists>p b. quiz_finished ?s1 = Inr (p, b) \<and> p = 80 \<and> (b = Darkgreen \<longleftrightarrow> 80 \<le> p)"
    by simp
  then have 1: "quiz_finished ?s1 = Inr (80, Darkgreen)" by auto
  from finished_score[of ?s0]
  have "\<exists>p b. quiz_finished ?s0 = Inr (p, b) \<and> p = 0 \<and> b = Red"
    by simp
  then have 2: "quiz_finished ?s0 = Inr (0, Red)" by auto
  from 1 2 show ?thesis by (rule conjI)
qed

text \<open>The same bands read off the two counts, without the quotient.\<close>

lemma band_by_counts:
  assumes "0 < total_questions_asked s"
  shows "quiz_finished s = Inr (p, b) \<Longrightarrow>
      (b = Darkgreen \<longleftrightarrow> 4 * total_questions_asked s \<le> 5 * correct_answers_count s)
    \<and> (b = Red \<longleftrightarrow> 10 * correct_answers_count s < 7 * total_questions_asked s)"
proof -
  assume f: "quiz_finished s = Inr (p, b)"
  let ?c = "correct_answers_count s" and ?t = "total_questions_asked s"
  have p: "p = of_nat ?c / of_nat ?t * 100" and b: "b = color_style p"
    using f assms by (auto simp: quiz_finished_def percentage_def py_truediv_def Fract_of_int_quotient)
  have t: "(0::rat) < of_nat ?t" using assms by simp
  have 1: "80 \<le> p \<longleftrightarrow> 4 * ?t \<le> 5 * ?c"
  proof -
    have "80 \<le> p \<longleftrightarrow> (80::rat) * of_nat ?t \<le> of_nat ?c * 100"
      unfolding p using t by (simp add: pos_le_divide_eq)
    also have "\<dots> \<longleftrightarrow> (of_nat (80 * ?t) :: rat) \<le> of_nat (?c * 100)" by simp
    also have "\<dots> \<longleftrightarrow> 80 * ?t \<le> ?c * 100" by (simp only: of_nat_le_iff)
    also have "\<dots> \<longleftrightarrow> 4 * ?t \<le> 5 * ?c" by arith
    finally show ?thesis .
  qed
  have 2: "p < 70 \<longleftrightarrow> 10 * ?c < 7 * ?t"
  proof -
    have "p < 70 \<longleftrightarrow> of_nat ?c * 100 < (70::rat) * of_nat ?t"
      unfolding p using t by (simp add: pos_divide_less_eq)
    also have "\<dots> \<longleftrightarrow> (of_nat (?c * 100) :: rat) < of_nat (70 * ?t)" by simp
    also have "\<dots> \<longleftrightarrow> ?c * 100 < 70 * ?t" by (simp only: of_nat_less_iff)
    also have "\<dots> \<longleftrightarrow> 10 * ?c < 7 * ?t" by arith
    finally show ?thesis .
  qed
  show ?thesis using 1 2 b by (auto simp: color_style_def)
qed

section \<open>Chapter selection: rejected input\<close>



section \<open>Chapter selection: accepted input\<close>

text \<open>
  Claim C4, as the code has it. For every chapter expression that the parser accepts (it
  shows no error), every resolved chapter is a chapter number of the table; the result has
  no duplicates when the expression is \<open>all\<close> or a range, while a comma list is returned
  value by value as it was typed, repeated values included; and the result is empty only
  for a valid range that matches no existing chapter, or for \<open>all\<close> on a table without rows.
\<close>

theorem accepted_chapters:
  assumes acc: "parse_chapter_input df s = (sel, [])"
  shows "set sel \<subseteq> (\<lambda>iq. q_chapter (snd iq)) ` set df
      \<and> (if s = ''all'' \<or> CHR ''-'' \<in> set s then distinct sel
          else sel = map (\<lambda>t. the (py_int (strip t))) (split_on CHR '','' s))
      \<and> (if sel = []
          then (\<exists>lo hi. parse_range s = Some (lo, hi)
                  \<and> \<not> (\<exists>ch. ch \<in> set (all_available_chapters df) \<and> lo \<le> ch \<and> ch \<le> hi))
               \<or> (s = ''all'' \<and> df = [])
          else True)"
proof (cases "s = ''all''")
  case True
  with acc have sel: "sel = all_available_chapters df"
    by (simp add: parse_chapter_input_def)
  have "sel = [] \<Longrightarrow> df = []"
    using set_all_available_chapters[of df] unfolding sel by (cases df) auto
  with True sel show ?thesis
    by (auto simp: set_all_available_chapters distinct_all_available_chapters)
next
  case na: False
  show ?thesis
  proof (cases "CHR ''-'' \<in> set s")
    case True
    with acc na obtain lo hi where r: "parse_range s = Some (lo, hi)"
      and sel: "sel = filter (\<lambda>ch. lo \<le> ch \<and> ch \<le> hi) (all_available_chapters df)"
      by (auto simp: parse_chapter_input_def split: option.splits)
    have d: "distinct sel" unfolding sel by (simp add: distinct_all_available_chapters)
    have sub: "set sel \<subseteq> (\<lambda>iq. q_chapter (snd iq)) ` set df"
      unfolding sel using set_all_available_chapters[of df] by auto
    have e: "sel = [] \<Longrightarrow> \<not> (\<exists>ch. ch \<in> set (all_available_chapters df) \<and> lo \<le> ch \<and> ch \<le> hi)"
      using filter_range_empty[of lo hi "all_available_chapters df"] unfolding sel by blast
    from True d sub e r show ?thesis by auto
  next
    case False
    let ?ts = "split_on CHR '','' s"
    from acc na False obtain sel' where t: "those (map (\<lambda>t. py_int (strip t)) ?ts) = Some sel'"
      by (auto simp: parse_chapter_input_def split: option.splits)
    with acc na False have sel: "sel = sel'"
      and av: "list_all (\<lambda>ch. ch \<in> set (all_available_chapters df)) sel'"
      by (auto simp: parse_chapter_input_def split: if_splits)
    from those_map_Some[OF t] have m: "sel' = map (\<lambda>t. the (py_int (strip t))) ?ts" by simp
    have ne: "sel \<noteq> []" unfolding sel m using split_on_nonempty[of "CHR '',''" s] by simp
    have sub: "set sel \<subseteq> (\<lambda>iq. q_chapter (snd iq)) ` set df"
      using av unfolding sel set_all_available_chapters[symmetric] by (auto simp: list_all_iff)
    from na False ne sub sel m show ?thesis by simp
  qed
qed

theorem accepted_chapters_witness:
  "parse_chapter_input small_table ''3,1,3'' = ([3, 1, 3], [])
   \<and> set [3, 1, 3] \<subseteq> (\<lambda>iq. q_chapter (snd iq)) ` set small_table
   \<and> parse_chapter_input small_table ''4-9'' = ([], [])
   \<and> (\<exists>lo hi. parse_range ''4-9'' = Some (lo, hi)
         \<and> \<not> (\<exists>ch. ch \<in> set (all_available_chapters small_table) \<and> lo \<le> ch \<and> ch \<le> hi))"
proof -
  have 1: "parse_chapter_input small_table ''3,1,3'' = ([3, 1, 3], [])" by code_simp
  have 2: "parse_chapter_input small_table ''4-9'' = ([], [])" by code_simp
  from accepted_chapters[OF 1] accepted_chapters[OF 2] 1 2 show ?thesis by simp
qed

text \<open>
  Claim C4 as stated fails twice: the accepted list \<open>1,1\<close> resolves to a result with a
  duplicate, and \<open>all\<close>, which is no range, resolves to the empty result on a table
  without rows.
\<close>

theorem duplicates_and_empty_all:
  "snd (parse_chapter_input small_table ''1,1'') = []
   \<and> \<not> distinct (fst (parse_chapter_input small_table ''1,1''))
   \<and> parse_chapter_input [] ''all'' = ([], [])
   \<and> parse_range ''all'' = None"
  by code_simp

section \<open>Chapter selection: ranges\<close>




section \<open>Writing one cell: failures\<close>

text \<open>
  Claim C9. A failure inside the single-cell write is to be reported to the user without
  aborting the session, and the write never modifies a counter of the session. The code
  does so for a failed authentication, an unknown column name and a failed cell update,
  and it never touches the session (both are proved below). But the header row is read
  outside every \<open>try\<close>: when that read fails, the write shows no message and the exception
  escapes. In the submit handler the run then ends after the attempted counter was
  incremented and before the answer is graded or the cursor advanced.
\<close>

theorem header_failure_escapes:
  "fst (update_gsheet_cell 1 ''Attempted'' 1 faulty_quiz) = Raised APIError
   \<and> shown (snd (update_gsheet_cell 1 ''Attempted'' 1 faulty_quiz)) = shown faulty_quiz
   \<and> fst (submit_answer Choice_c faulty_quiz) = Raised APIError
   \<and> shown (snd (submit_answer Choice_c faulty_quiz)) = shown faulty_quiz
   \<and> attempted_counts (st (snd (submit_answer Choice_c faulty_quiz))) 1 = Some 1
   \<and> correct_answers_count (st (snd (submit_answer Choice_c faulty_quiz))) = 0
   \<and> current_question_idx (st (snd (submit_answer Choice_c faulty_quiz))) = 0"
  by code_simp

text \<open>
  Property X1. Whatever happens inside the single-cell write, the session is as before:
  no counter and no other field of it changes.
\<close>

lemma update_gsheet_cell_session: "st (snd (update_gsheet_cell r c v a)) = st a"
  by (simp add: update_gsheet_cell_def Let_def)

text \<open>
  Property X2. When authentication or the cell update fails, or the column name is not in
  the header row, the write returns, shows exactly one more message, which is an error,
  and leaves the session and the rows of the sheet unchanged.
\<close>

lemma handled_failure_reported:
  assumes "faults (env a) (length (calls (env a))) \<in> {Auth_fault, Update_fault}
           \<or> (faults (env a) (length (calls (env a))) = No_fault \<and> c \<notin> set (ws_headers (env a)))"
  shows "\<exists>m. is_error m
      \<and> fst (update_gsheet_cell r c v a) = Returned
      \<and> shown (snd (update_gsheet_cell r c v a)) = shown a @ [m]
      \<and> st (snd (update_gsheet_cell r c v a)) = st a
      \<and> ws_rows (env (snd (update_gsheet_cell r c v a))) = ws_rows (env a)"
  using assms by (auto simp: update_gsheet_cell_def Let_def)

lemma handled_failure_reported_witness:
  "\<exists>m. is_error m
      \<and> fst (update_gsheet_cell 1 ''Score'' 5 small_quiz) = Returned
      \<and> shown (snd (update_gsheet_cell 1 ''Score'' 5 small_quiz)) = shown small_quiz @ [m]
      \<and> st (snd (update_gsheet_cell 1 ''Score'' 5 small_quiz)) = st small_quiz"
proof -
  have "faults (env small_quiz) (length (calls (env small_quiz))) = No_fault
        \<and> ''Score'' \<notin> set (ws_headers (env small_quiz))"
    by (simp add: small_quiz_env small_world_def sheet_headers_def)
  then have "faults (env small_quiz) (length (calls (env small_quiz))) \<in> {Auth_fault, Update_fault}
           \<or> (faults (env small_quiz) (length (calls (env small_quiz))) = No_fault
               \<and> ''Score'' \<notin> set (ws_headers (env small_quiz)))"
    by (rule disjI2)
  from handled_failure_reported[OF this, of 1 5] show ?thesis by blast
qed

section \<open>Restart\<close>

text \<open>
  Claim C2. The restart button is to fetch the table again from the external store, not
  to reuse the counters of a cached load, and to reset the cursor, the score and the
  selections. The reset holds. The fetch does not: the loader is called through its
  cache, so a restart less than 600 seconds after the last real load gets the cached
  table back (both are proved below). In the session below the quiz wrote
  the attempted count 1 of the second question to the sheet; after the restart, sixty
  seconds after the load, the session holds the count 0 again for it. Only a restart
  after the cache has expired sees the count 1.
\<close>

theorem restart_reuses_cached_table:
  "quiz_stage (st played) = Quiz_finished
   \<and> attempted_counts (st played) 1 = Some 1
   \<and> map raw_attempted (ws_rows (env played)) = [Some 0, Some 1, Some 0]
   \<and> fst (start_new_quiz (elapse 30 played)) = Returned
   \<and> quiz_stage (st (snd (start_new_quiz (elapse 30 played)))) = Chapter_selection
   \<and> attempted_counts (st (snd (start_new_quiz (elapse 30 played)))) 1 = Some 0
   \<and> map (\<lambda>iq. q_attempted (snd iq)) (data_df (st (snd (start_new_quiz (elapse 30 played)))))
       = [0, 0, 0]
   \<and> attempted_counts (st (snd (start_new_quiz (elapse 600 played)))) 1 = Some 1"
  by code_simp

text \<open>
  Property X3. A restart that returns leaves the session in chapter selection, with the
  cursor, the score, the total and the requested count at 0, with no chapters, no mode and
  no questions, and with both counter dictionaries read off the table it loaded.
\<close>

lemma restart_resets:
  assumes "quiz_stage (st a) = Quiz_finished"
    and "start_new_quiz a = (Returned, a')"
  shows "quiz_stage (st a') = Chapter_selection
      \<and> current_question_idx (st a') = 0
      \<and> correct_answers_count (st a') = 0
      \<and> total_questions_asked (st a') = 0
      \<and> selected_chapters (st a') = []
      \<and> practice_mode (st a') = None
      \<and> num_questions_to_ask (st a') = 0
      \<and> quiz_questions (st a') = []
      \<and> attempted_counts (st a') = to_dict q_attempted (data_df (st a'))
      \<and> incorrect_attempt_counts (st a') = to_dict q_incorrect_attempt (data_df (st a'))"
  using assms by (auto simp: start_new_quiz_def split: prod.splits option.splits)

text \<open>
  Property X4. A restart while the loader's cache entry is younger than 600 seconds
  returns with the cached table and leaves the world as it is: the sheet is not read.
\<close>

lemma restart_within_ttl:
  assumes "quiz_stage (st a) = Quiz_finished"
    and "data_cache (env a) = Some (t, df, msgs)"
    and "clock (env a) < t + 600"
  shows "\<exists>a'. start_new_quiz a = (Returned, a') \<and> data_df (st a') = df \<and> env a' = env a"
  using assms by (simp add: start_new_quiz_def load_data_from_gsheets_def)

lemma played_stage: "quiz_stage (st played) = Quiz_finished"
  by code_simp

lemma played_cache: "data_cache (env (elapse 30 played)) = Some (0, small_table, [])"
  by code_simp

lemma played_clock: "clock (env (elapse 30 played)) = 60"
  by code_simp

lemma restart_within_ttl_witness:
  "\<exists>a'. start_new_quiz (elapse 30 played) = (Returned, a') \<and> data_df (st a') = small_table
      \<and> env a' = env (elapse 30 played)"
proof -
  have s: "quiz_stage (st (elapse 30 played)) = Quiz_finished"
    using played_stage by (simp add: elapse_def)
  have c: "clock (env (elapse 30 played)) < 0 + 600" by (simp add: played_clock)
  from restart_within_ttl[OF s played_cache c] show ?thesis .
qed

lemma restart_resets_witness:
  "quiz_stage (st (snd (start_new_quiz (elapse 30 played)))) = Chapter_selection
   \<and> current_question_idx (st (snd (start_new_quiz (elapse 30 played)))) = 0
   \<and> correct_answers_count (st (snd (start_new_quiz (elapse 30 played)))) = 0
   \<and> selected_chapters (st (snd (start_new_quiz (elapse 30 played)))) = []
   \<and> practice_mode (st (snd (start_new_quiz (elapse 30 played)))) = None
   \<and> quiz_questions (st (snd (start_new_quiz (elapse 30 played)))) = []"
proof -
  have s: "quiz_stage (st (elapse 30 played)) = Quiz_finished"
    using played_stage by (simp add: elapse_def)
  have r: "fst (start_new_quiz (elapse 30 played)) = Returned" by code_simp
  then have "start_new_quiz (elapse 30 played) = (Returned, snd (start_new_quiz (elapse 30 played)))"
    by (metis prod.collapse)
  from restart_resets[OF s this] show ?thesis by simp
qed

end
